theory Spec2Isabelle
  imports
    Complex_Main
    "HOL-Library.Char_ord"
    "HOL-Library.List_Lexorder"
    "HOL-Library.Multiset"
    "HOL-Library.Sublist"
begin

section \<open>Python values shared by both pipelines\<close>

text \<open>
  A Python \<^verbatim>\<open>str\<close> is modelled as a \<^typ>\<open>string\<close>: one \<^typ>\<open>char\<close> stands for one
  code point (the code points 0 to 255). Exceptions are values of \<open>py_error\<close>; a
  computation that may raise returns \<open>py_error + 'a\<close>, with \<open>Inl\<close> for the exception.
\<close>

datatype py_error = FileNotFoundError | OSError | ValueError | IndexError | OverflowError

text \<open>The slice \<^verbatim>\<open>xs[:k]\<close>: a negative \<open>k\<close> counts from the end of the sequence.\<close>

definition slice_to :: "int \<Rightarrow> 'a list \<Rightarrow> 'a list" where
  "slice_to k xs =
     (if 0 \<le> k then take (nat k) xs else take (nat (int (length xs) + k)) xs)"


text \<open>
  \<^verbatim>\<open>str.split(sep)\<close> for a one-character separator: the text between the separators,
  one more token than there are separators.
\<close>

fun split_on :: "char \<Rightarrow> string \<Rightarrow> string list" where
  "split_on sep [] = [[]]"
| "split_on sep (c # cs) =
     (if c = sep then [] # split_on sep cs
      else (case split_on sep cs of
              [] \<Rightarrow> [[c]]
            | token # tokens \<Rightarrow> (c # token) # tokens))"

text \<open>\<^verbatim>\<open>xs[i]\<close> for an index that is not negative.\<close>

definition py_index :: "'a list \<Rightarrow> nat \<Rightarrow> py_error + 'a" where
  "py_index xs i = (if i < length xs then Inr (xs ! i) else Inl IndexError)"

text \<open>
  \<^verbatim>\<open>str.strip()\<close>: the code points below 256 for which \<^verbatim>\<open>str.isspace\<close> holds are
  9 to 13, 28 to 32, 133 and 160.
\<close>

definition is_space :: "char \<Rightarrow> bool" where
  "is_space c =
     (of_char c \<in> set [9, 10, 11, 12, 13, 28, 29, 30, 31, 32, 133, 160 :: nat])"

definition strip :: "string \<Rightarrow> string" where
  "strip s = rev (dropWhile is_space (rev (dropWhile is_space s)))"

definition startswith :: "string \<Rightarrow> string \<Rightarrow> bool" where
  "startswith s p = (take (length p) s = p)"

subsection \<open>Decimal digits and integers\<close>

definition is_digit :: "char \<Rightarrow> bool" where
  "is_digit c = (c \<in> set ''0123456789'')"

definition digit_char :: "nat \<Rightarrow> char" where
  "digit_char d = ''0123456789'' ! (d mod 10)"

definition digit_value :: "char \<Rightarrow> nat" where
  "digit_value c = of_char c - 48"

definition digits_value :: "string \<Rightarrow> nat" where
  "digits_value s = foldl (\<lambda>n c. 10 * n + digit_value c) 0 s"

text \<open>\<^verbatim>\<open>str(n)\<close> for an integer: its decimal digits, with a minus sign when negative.\<close>

fun str_nat :: "nat \<Rightarrow> string" where
  "str_nat n = (if n < 10 then [digit_char n] else str_nat (n div 10) @ [digit_char n])"

declare str_nat.simps [simp del]


text \<open>
  \<^verbatim>\<open>f"{n:04d}"\<close> for \<open>n \<ge> 0\<close>: zeros on the left up to a width of four, no cut
  when the number has more digits.
\<close>

definition zero_pad :: "nat \<Rightarrow> nat \<Rightarrow> string" where
  "zero_pad width n = replicate (width - length (str_nat n)) CHR ''0'' @ str_nat n"

subsection \<open>Floats\<close>

text \<open>
  A Python \<^verbatim>\<open>float\<close> that is not negative: a binary64 value, held as the rational it
  denotes, or infinity. \<open>binary64 x\<close> is the binary64 value nearest to the rational
  \<open>x \<ge> 0\<close> (ties to the even significand), as \<^verbatim>\<open>float(str)\<close> and the division of two
  integers compute it: \<open>float_exponent x\<close> is the exponent \<open>e\<close> with
  \<open>2 ^ e \<le> x < 2 ^ (e + 1)\<close>, not below that of the subnormals, and \<open>ulp\<close> the
  distance between neighbouring values at that exponent.
\<close>

datatype pyfloat = Finite rat | Infinity

definition round_half_even :: "rat \<Rightarrow> int" where
  "round_half_even x =
     (let f = \<lfloor>x\<rfloor>; d = x - of_int f
      in if d < 1 / 2 then f else if 1 / 2 < d then f + 1 else if even f then f else f + 1)"

function log2_floor :: "int \<Rightarrow> int" where
  "log2_floor n = (if n < 2 then 0 else 1 + log2_floor (n div 2))"
  by pat_completeness auto
termination
  by (relation "measure nat") auto

declare log2_floor.simps [simp del]

definition float_exponent :: "rat \<Rightarrow> int" where
  "float_exponent x =
     (if x \<le> 0 then - 1022
      else if 1 \<le> x then log2_floor \<lfloor>x\<rfloor>
      else max (- 1022) (- (log2_floor (\<lceil>1 / x\<rceil> - 1) + 1)))"

definition binary64 :: "rat \<Rightarrow> pyfloat" where
  "binary64 x =
     (let e = float_exponent x;
          ulp = (if 52 \<le> e then 2 ^ nat (e - 52) else 1 / 2 ^ nat (52 - e));
          v = of_int (round_half_even (x / ulp)) * ulp
      in if 2 ^ 1024 \<le> v then Infinity else Finite v)"

text \<open>
  \<^verbatim>\<open>float(s)\<close> on the strings the pattern's groups \<^verbatim>\<open>[\d.]+\<close> capture: digits with at
  most one point and at least one digit give the nearest binary64 value, anything else
  raises \<^verbatim>\<open>ValueError\<close>. (Signs, exponents, underscores, surrounding white space and the
  words \<^verbatim>\<open>inf\<close> and \<^verbatim>\<open>nan\<close>, which \<^verbatim>\<open>float\<close> also reads, cannot stand in such a
  string and are not modelled.)
\<close>

definition py_float :: "string \<Rightarrow> py_error + pyfloat" where
  "py_float s =
     (let int_part = takeWhile is_digit s; rest = dropWhile is_digit s
      in case rest of
           [] \<Rightarrow>
             (if int_part = [] then Inl ValueError
              else Inr (binary64 (of_nat (digits_value int_part))))
         | c # frac_part \<Rightarrow>
             (if c = CHR ''.'' \<and> list_all is_digit frac_part \<and> (int_part \<noteq> [] \<or> frac_part \<noteq> [])
              then Inr (binary64 (of_nat (digits_value (int_part @ frac_part))
                                   / 10 ^ length frac_part))
              else Inl ValueError))"

text \<open>
  \<^verbatim>\<open>f"{ms/1000:.2f}"\<close> for an integer \<open>ms\<close>: the quotient of two integers is the nearest
  binary64 value (\<^verbatim>\<open>OverflowError\<close> when that is out of range), and \<^verbatim>\<open>.2f\<close> prints
  the exact value of the float rounded to two decimals, ties to even, with the sign of
  the float.
\<close>

definition format_2f :: "rat \<Rightarrow> string" where
  "format_2f v =
     (let q = nat (round_half_even (v * 100))
      in str_nat (q div 100) @ ''.'' @ zero_pad 2 (q mod 100))"

definition seconds_2f :: "int \<Rightarrow> py_error + string" where
  "seconds_2f ms =
     (case binary64 (of_int \<bar>ms\<bar> / 1000) of
        Infinity \<Rightarrow> Inl OverflowError
      | Finite v \<Rightarrow> Inr ((if ms < 0 then ''-'' else []) @ format_2f v))"

section \<open>The Segment-Log Parser (\<^verbatim>\<open>generate_csv_file.py\<close>, \<^verbatim>\<open>drupchen_training_data_format.py\<close>)\<close>

definition CLOUDFRONT_URL :: string where
  "CLOUDFRONT_URL = ''https://d38pmlk0v88drf.cloudfront.net/wav16k/''"

subsection \<open>The record pattern\<close>

text \<open>
  The pattern is a sequence of literal texts and capture groups; every group of
  \<^verbatim>\<open>SEGMENT_PATTERN\<close> is a greedy repetition \<^verbatim>\<open>(C+)\<close> of one character class.
  \<open>match_here\<close> is the backtracking matcher at one position: a group first takes the
  longest run of its class, then gives characters back one at a time until the rest of
  the pattern matches. It returns the captured groups and the text after the match.
\<close>

datatype rx_item = Lit string | Group "char \<Rightarrow> bool"

fun try_lengths ::
  "(string \<Rightarrow> (string list \<times> string) option) \<Rightarrow> string \<Rightarrow> nat
     \<Rightarrow> (string list \<times> string) option"
where
  "try_lengths k s 0 = None"
| "try_lengths k s (Suc n) =
     (case k (drop (Suc n) s) of
        Some (groups, rest) \<Rightarrow> Some (take (Suc n) s # groups, rest)
      | None \<Rightarrow> try_lengths k s n)"

fun match_here :: "rx_item list \<Rightarrow> string \<Rightarrow> (string list \<times> string) option" where
  "match_here [] s = Some ([], s)"
| "match_here (Lit l # items) s =
     (if take (length l) s = l then match_here items (drop (length l) s) else None)"
| "match_here (Group cls # items) s =
     try_lengths (match_here items) s (length (takeWhile cls s))"

text \<open>
  \<^verbatim>\<open>pattern.findall(s)\<close>: the matches from left to right, without overlap; the search
  goes on where the last match ended (one character further after an empty match,
  which \<^verbatim>\<open>SEGMENT_PATTERN\<close> never has), and a position where the pattern does not match
  is passed over.
\<close>

function findall :: "rx_item list \<Rightarrow> string \<Rightarrow> string list list" where
  "findall p s =
     (case match_here p s of
        Some (groups, rest) \<Rightarrow>
          (if s = [] then [groups]
           else groups # findall p (if length rest < length s then rest else tl s))
      | None \<Rightarrow> (if s = [] then [] else findall p (tl s)))"
  by pat_completeness auto
termination
  by (relation "measure (\<lambda>(p, s). length s)") auto

declare findall.simps [simp del]

text \<open>The classes \<^verbatim>\<open>\d\<close>, \<^verbatim>\<open>[\d.]\<close> and \<^verbatim>\<open>.\<close> (any character but the newline).\<close>

definition is_digit_or_dot :: "char \<Rightarrow> bool" where
  "is_digit_or_dot c = (is_digit c \<or> c = CHR ''.'')"

definition not_newline :: "char \<Rightarrow> bool" where
  "not_newline c = (c \<noteq> CHR 0x0A)"

definition SEGMENT_PATTERN :: "rx_item list" where
  "SEGMENT_PATTERN =
     [Lit ''Segment '', Group is_digit,
      Lit (CHR 0x0A # ''Time: ''), Group is_digit_or_dot,
      Lit ''s - '', Group is_digit_or_dot,
      Lit ''s (duration: '', Group is_digit_or_dot,
      Lit (''s)'' @ CHR 0x0A # ''Filename: ''), Group not_newline,
      Lit (CHR 0x0A # ''Transcription: ''), Group not_newline]"

definition extract_segments :: "string \<Rightarrow> string list list" where
  "extract_segments log_content = findall SEGMENT_PATTERN log_content"

subsection \<open>From matched blocks to manifest rows\<close>

definition construct_audio_url :: "string \<Rightarrow> string" where
  "construct_audio_url filename = CLOUDFRONT_URL @ filename"

text \<open>
  One manifest row \<^verbatim>\<open>[filename, dept, audio_url, duration_in_seconds, transcript]\<close>,
  its fields named by the columns \<^verbatim>\<open>save_to_csv\<close> gives them.
\<close>

record manifest_row =
  file_name :: string
  dept :: string
  audio_url :: string
  audio_duration_in_seconds :: pyfloat
  transcript :: string

text \<open>
  The body of the loop of \<^verbatim>\<open>process_segments\<close>. A segment is the tuple of the six
  groups; unpacking a tuple of another length raises \<^verbatim>\<open>ValueError\<close>.
\<close>

fun process_segment :: "string list \<Rightarrow> py_error + manifest_row" where
  "process_segment [segment_id, start_time, end_time, duration, filename, transcription] =
     (case py_index (split_on CHR ''_'' filename) 1 of
        Inl e \<Rightarrow> Inl e
      | Inr dept_code \<Rightarrow>
          (case py_float duration of
             Inl e \<Rightarrow> Inl e
           | Inr duration_in_seconds \<Rightarrow>
               Inr \<lparr>file_name = filename, dept = dept_code,
                    audio_url = construct_audio_url filename,
                    audio_duration_in_seconds = duration_in_seconds,
                    transcript = strip transcription\<rparr>))"
| "process_segment _ = Inl ValueError"

fun process_segments_loop ::
  "manifest_row list \<Rightarrow> string list list \<Rightarrow> py_error + manifest_row list"
where
  "process_segments_loop data [] = Inr data"
| "process_segments_loop data (segment # segments) =
     (case process_segment segment of
        Inl e \<Rightarrow> Inl e
      | Inr row \<Rightarrow> process_segments_loop (data @ [row]) segments)"

definition process_segments :: "string list list \<Rightarrow> py_error + manifest_row list" where
  "process_segments segments = process_segments_loop [] segments"

subsection \<open>Folders and the manifest\<close>

text \<open>
  The files the Parser reads: \<open>listdir fs folder\<close> is what \<^verbatim>\<open>os.listdir(folder)\<close>
  returns (the names, in the order the system lists them) or raises, \<open>read_text fs path\<close>
  what \<^verbatim>\<open>open(path, encoding="utf-8").read()\<close> returns or raises.
\<close>

record filesystem =
  listdir :: "string \<Rightarrow> py_error + string list"
  read_text :: "string \<Rightarrow> py_error + string"

text \<open>\<^verbatim>\<open>os.path.join(a, b)\<close> of two components, on a POSIX system.\<close>

definition path_join :: "string \<Rightarrow> string \<Rightarrow> string" where
  "path_join a b =
     (if startswith b ''/'' then b
      else if a = [] \<or> last a = CHR ''/'' then a @ b
      else a @ ''/'' @ b)"

definition get_log_file :: "filesystem \<Rightarrow> string \<Rightarrow> py_error + string" where
  "get_log_file fs folder =
     (case listdir fs folder of
        Inl e \<Rightarrow> Inl e
      | Inr names \<Rightarrow>
          (case filter (\<lambda>f. startswith f ''segments_log'') names of
             [] \<Rightarrow> Inl FileNotFoundError
           | f # _ \<Rightarrow> Inr (path_join folder f)))"

definition read_log_file :: "filesystem \<Rightarrow> string \<Rightarrow> py_error + string" where
  "read_log_file fs log_file_path = read_text fs log_file_path"

text \<open>
  The body of the \<^verbatim>\<open>try\<close> in \<^verbatim>\<open>process_audio_folders\<close>: the rows of one folder,
  or the exception that the \<^verbatim>\<open>except\<close> clause catches (and prints).
\<close>

definition process_folder :: "filesystem \<Rightarrow> string \<Rightarrow> py_error + manifest_row list" where
  "process_folder fs folder =
     (case get_log_file fs folder of
        Inl e \<Rightarrow> Inl e
      | Inr log_file_path \<Rightarrow>
          (case read_log_file fs log_file_path of
             Inl e \<Rightarrow> Inl e
           | Inr log_content \<Rightarrow> process_segments (extract_segments log_content)))"

text \<open>The loop over the folders: \<^verbatim>\<open>data.extend\<close> on success, nothing on an exception.\<close>

fun collect_folders :: "filesystem \<Rightarrow> manifest_row list \<Rightarrow> string list \<Rightarrow> manifest_row list" where
  "collect_folders fs data [] = data"
| "collect_folders fs data (folder # audio_folders) =
     (case process_folder fs folder of
        Inl e \<Rightarrow> collect_folders fs data audio_folders
      | Inr rows \<Rightarrow> collect_folders fs (data @ rows) audio_folders)"

text \<open>
  \<^verbatim>\<open>pd.DataFrame(data, columns=[...])\<close> and \<^verbatim>\<open>df.to_csv(output_csv, index=False)\<close>.
  The written file is its header line, the column names joined by commas with no index
  column before them, and after it one record per row of the frame, in the frame's
  order (the text encoding of a record is pandas' own and is not modelled).
\<close>

definition MANIFEST_COLUMNS :: "string list" where
  "MANIFEST_COLUMNS =
     [''file_name'', ''dept'', ''audio_url'', ''audio_duration_in_seconds'', ''transcript'']"

record dataframe =
  columns :: "string list"
  records :: "manifest_row list"

record csv_file =
  header_line :: string
  data_rows :: "manifest_row list"

fun str_join :: "string \<Rightarrow> string list \<Rightarrow> string" where
  "str_join sep [] = []"
| "str_join sep [x] = x"
| "str_join sep (x # y # ys) = x @ sep @ str_join sep (y # ys)"

definition to_csv :: "dataframe \<Rightarrow> csv_file" where
  "to_csv df = \<lparr>header_line = str_join '','' (columns df), data_rows = records df\<rparr>"

text \<open>
  \<^verbatim>\<open>df.sort_values(by="file_name")\<close>: ascending by the code points of the name. (Among
  rows of equal name pandas' default sort fixes no order; the model keeps theirs, and no
  theorem below depends on it.)
\<close>

definition sort_values_by_file_name :: "dataframe \<Rightarrow> dataframe" where
  "sort_values_by_file_name df = df\<lparr>records := sort_key file_name (records df)\<rparr>"

text \<open>\<^verbatim>\<open>save_to_csv\<close> of \<^verbatim>\<open>generate_csv_file.py\<close>: no sorting.\<close>

definition save_to_csv :: "manifest_row list \<Rightarrow> csv_file" where
  "save_to_csv data = to_csv \<lparr>columns = MANIFEST_COLUMNS, records = data\<rparr>"

text \<open>\<^verbatim>\<open>save_to_csv\<close> of \<^verbatim>\<open>drupchen_training_data_format.py\<close>: sorted by file name.\<close>

definition save_to_csv_sorted :: "manifest_row list \<Rightarrow> csv_file" where
  "save_to_csv_sorted data =
     to_csv (sort_values_by_file_name \<lparr>columns = MANIFEST_COLUMNS, records = data\<rparr>)"

text \<open>\<^verbatim>\<open>process_audio_folders\<close> of each file: the manifest it writes to \<^verbatim>\<open>output_csv\<close>.\<close>

definition process_audio_folders :: "filesystem \<Rightarrow> string list \<Rightarrow> csv_file" where
  "process_audio_folders fs audio_folders = save_to_csv (collect_folders fs [] audio_folders)"

definition process_audio_folders_sorted :: "filesystem \<Rightarrow> string list \<Rightarrow> csv_file" where
  "process_audio_folders_sorted fs audio_folders =
     save_to_csv_sorted (collect_folders fs [] audio_folders)"

section \<open>The Audio Splitter (both \<^verbatim>\<open>split_audio.py\<close> files)\<close>















subsection \<open>Shared helpers\<close>

text \<open>
  The character class of \<^verbatim>\<open>re.sub(r'[\\/*?:"<>|]', "", text)\<close>: backslash, slash,
  asterisk, question mark, colon, double quote, less-than, greater-than, vertical bar.
\<close>

definition unsafe_chars :: "char list" where
  "unsafe_chars =
     [CHR 0x5C, CHR ''/'', CHR ''*'', CHR ''?'', CHR '':'', CHR 0x22, CHR ''<'', CHR ''>'',
      CHR ''|'']"

text \<open>
  \<^verbatim>\<open>clean_filename(text, max_length=50)\<close>: every character of the class is replaced by
  the empty string, then the result is cut with \<^verbatim>\<open>clean_text[:max_length]\<close>.
\<close>

definition clean_filename :: "string \<Rightarrow> int \<Rightarrow> string" where
  "clean_filename text max_length =
     slice_to max_length (filter (\<lambda>c. c \<notin> set unsafe_chars) text)"

definition clean_filename_default :: "string \<Rightarrow> string" where
  "clean_filename_default text = clean_filename text 50"

section \<open>Example data and derived notions used in the statements\<close>

text \<open>The log block of the specification's example, with its separator.\<close>

definition EXAMPLE_LOG :: string where
  "EXAMPLE_LOG =
     ''Segment 0001'' @ [CHR 0x0A]
     @ ''Time: 0.00s - 3.00s (duration: 3.00s)'' @ [CHR 0x0A]
     @ ''Filename: STT_TT_D001_0001_0_to_3000.wav'' @ [CHR 0x0A]
     @ ''Transcription: hello'' @ [CHR 0x0A]
     @ replicate 80 CHR ''-'' @ [CHR 0x0A, CHR 0x0A]"

text \<open>A second log, of another recording, whose one file name sorts before the first.\<close>

definition EXAMPLE_LOG_C :: string where
  "EXAMPLE_LOG_C =
     ''Segment 0007'' @ [CHR 0x0A]
     @ ''Time: 2.00s - 3.00s (duration: 1.00s)'' @ [CHR 0x0A]
     @ ''Filename: STT_AB_D003_0007_2000_to_3000.wav'' @ [CHR 0x0A]
     @ ''Transcription:  good day '' @ [CHR 0x0A]
     @ replicate 80 CHR ''-'' @ [CHR 0x0A, CHR 0x0A]"

text \<open>
  Three folders: \<^verbatim>\<open>data/a\<close> and \<^verbatim>\<open>data/c\<close> hold a log, \<^verbatim>\<open>data/b\<close> holds none; no
  other folder exists.
\<close>

definition EXAMPLE_FS :: filesystem where
  "EXAMPLE_FS =
     \<lparr>listdir = (\<lambda>folder.
         if folder = ''data/a'' then Inr [''notes.txt'', ''segments_log.txt'']
         else if folder = ''data/b'' then Inr [''notes.txt'']
         else if folder = ''data/c'' then Inr [''segments_log.txt'']
         else Inl FileNotFoundError),
      read_text = (\<lambda>path.
         if path = ''data/a/segments_log.txt'' then Inr EXAMPLE_LOG
         else if path = ''data/c/segments_log.txt'' then Inr EXAMPLE_LOG_C
         else Inl FileNotFoundError)\<rparr>"

text \<open>What one folder adds to the manifest: its rows, or nothing when its processing raised.\<close>

definition folder_rows :: "filesystem \<Rightarrow> string \<Rightarrow> manifest_row list" where
  "folder_rows fs folder = (case process_folder fs folder of Inl e \<Rightarrow> [] | Inr rows \<Rightarrow> rows)"















section \<open>Properties of the filename sanitizer\<close>

lemma set_slice_to: "set (slice_to k xs) \<subseteq> set xs"
  by (auto simp: slice_to_def dest: in_set_takeD)

lemma length_slice_to: "0 \<le> k \<Longrightarrow> int (length (slice_to k xs)) \<le> k"
  by (simp add: slice_to_def)

text \<open>
  C9, as the claim states it, fails: \<^verbatim>\<open>max_length\<close> is any Python integer, and for a
  negative one the slice drops characters from the end instead of bounding the length.
  \<^verbatim>\<open>clean_filename("abc", -1)\<close> is \<^verbatim>\<open>"ab"\<close>, of length 2, which is not at most -1.
\<close>

theorem clean_filename_negative_max_length:
  "clean_filename ''abc'' (- 1) = ''ab'' \<and>
   \<not> int (length (clean_filename ''abc'' (- 1))) \<le> - 1"
  by (simp add: clean_filename_def slice_to_def unsafe_chars_def)

text \<open>
  C9, amended: for every input string and every \<^verbatim>\<open>max_length\<close> the output contains none
  of the nine characters; for every \<^verbatim>\<open>max_length\<close> that is not negative its length is at
  most \<^verbatim>\<open>max_length\<close>; with the default, at most 50.
\<close>

theorem clean_filename_safe:
  "set (clean_filename text max_length) \<inter> set unsafe_chars = {} \<and>
   (0 \<le> max_length \<longrightarrow> int (length (clean_filename text max_length)) \<le> max_length) \<and>
   length (clean_filename_default text) \<le> 50"
proof -
  have "set (clean_filename text max_length) \<subseteq> {c \<in> set text. c \<notin> set unsafe_chars}"
    unfolding clean_filename_def using set_slice_to [of max_length] by (metis set_filter)
  then have chars: "set (clean_filename text max_length) \<inter> set unsafe_chars = {}"
    by blast
  have bound: "0 \<le> m \<Longrightarrow> int (length (clean_filename text m)) \<le> m" for m
    unfolding clean_filename_def by (rule length_slice_to)
  from bound [of 50] have "length (clean_filename_default text) \<le> 50"
    by (simp add: clean_filename_default_def)
  with chars bound [of max_length] show ?thesis by blast
qed

theorem clean_filename_safe_witness:
  "clean_filename ''a/b:c*d'' 3 = ''abc'' \<and>
   set (clean_filename ''a/b:c*d'' 3) \<inter> set unsafe_chars = {} \<and>
   (0::int) \<le> 3 \<and> int (length (clean_filename ''a/b:c*d'' 3)) \<le> 3"
  using clean_filename_safe [of "''a/b:c*d''" 3]
  by (simp add: clean_filename_def slice_to_def unsafe_chars_def)


section \<open>Numbers and their texts\<close>

lemma log2_floor_nonneg: "0 \<le> log2_floor n"
  by (induction n rule: log2_floor.induct) (subst log2_floor.simps, simp)

lemma log2_floor_bounds:
  "1 \<le> n \<Longrightarrow> 2 ^ nat (log2_floor n) \<le> n \<and> n < 2 * 2 ^ nat (log2_floor n)"
proof (induction n rule: log2_floor.induct)
  case (1 n)
  show ?case
  proof (cases "n < 2")
    case True
    with "1.prems" have "n = 1" by simp
    then show ?thesis by (subst (1 2) log2_floor.simps) simp
  next
    case False
    then have half: "1 \<le> n div 2" by simp
    from "1.IH" [OF False half]
    have ih: "2 ^ nat (log2_floor (n div 2)) \<le> n div 2"
      "n div 2 < 2 * 2 ^ nat (log2_floor (n div 2))" by simp_all
    have unfold: "log2_floor n = 1 + log2_floor (n div 2)"
      using False by (subst log2_floor.simps) simp
    have pow: "(2::int) ^ nat (1 + log2_floor (n div 2)) = 2 * 2 ^ nat (log2_floor (n div 2))"
      using log2_floor_nonneg [of "n div 2"] by (simp add: nat_add_distrib)
    from ih show ?thesis unfolding unfold pow by linarith
  qed
qed

lemma round_half_even_of_int: "round_half_even (of_int m) = m"
  by (simp add: round_half_even_def)

lemma binary64_of_int:
  assumes "1 \<le> n" and "n < 2 ^ 53"
  shows "binary64 (of_int n) = Finite (of_int n)"
proof -
  define e where "e = log2_floor n"
  have e_nonneg: "0 \<le> e" unfolding e_def by (rule log2_floor_nonneg)
  from log2_floor_bounds [OF assms(1)] have lower: "2 ^ nat e \<le> n" by (simp add: e_def)
  with assms(2) have pow_less: "(2::int) ^ nat e < 2 ^ 53" by linarith
  have "(1::int) < 2" by simp
  from power_less_imp_less_exp [OF this pow_less] have "nat e < 53" .
  with e_nonneg have e_le: "e \<le> 52" by linarith
  have fe: "float_exponent (of_int n) = e"
    using assms(1) by (simp add: float_exponent_def e_def)
  define k where "k = nat (52 - e)"
  define ulp :: rat where "ulp = (if 52 \<le> e then 2 ^ nat (e - 52) else 1 / 2 ^ nat (52 - e))"
  have ulp: "ulp = 1 / 2 ^ k"
    using e_le by (cases "e = 52") (simp_all add: ulp_def k_def)
  have quot: "of_int n / ulp = (of_int (n * 2 ^ k) :: rat)"
    by (simp add: ulp)
  have v: "of_int (round_half_even (of_int n / ulp)) * ulp = (of_int n :: rat)"
    unfolding quot round_half_even_of_int by (simp add: ulp)
  have "(of_int n :: rat) < of_int (2 ^ 53)"
    using assms(2) by (simp only: of_int_less_iff)
  also have "\<dots> \<le> (2::rat) ^ 1024" by simp
  finally have small: "\<not> (2::rat) ^ 1024 \<le> of_int n" by simp
  show ?thesis
    unfolding binary64_def fe Let_def ulp_def [symmetric] v using small by simp
qed

lemma binary64_zero: "binary64 0 = Finite 0"
  by (simp add: binary64_def float_exponent_def round_half_even_def)

lemma is_digit_digit_char: "is_digit (digit_char d)"
  unfolding is_digit_def digit_char_def by (rule nth_mem) simp

lemma str_nat_digits: "list_all is_digit (str_nat n)"
  by (induction n rule: str_nat.induct) (subst str_nat.simps, simp add: is_digit_digit_char)

lemma str_nat_not_empty: "str_nat n \<noteq> []"
  by (subst str_nat.simps) simp

lemma zero_pad_digits: "list_all is_digit (zero_pad w n)"
proof -
  have "is_digit CHR ''0''" by (simp add: is_digit_def)
  with str_nat_digits [of n] show ?thesis
    by (auto simp: zero_pad_def list_all_iff)
qed

lemma zero_pad_not_empty: "zero_pad w n \<noteq> []"
  by (simp add: zero_pad_def str_nat_not_empty)

lemma format_2f_shape: "format_2f v \<noteq> [] \<and> list_all is_digit_or_dot (format_2f v)"
proof -
  have "list_all is_digit_or_dot xs" if "list_all is_digit xs" for xs
    using that by (simp add: list_all_iff is_digit_or_dot_def)
  then show ?thesis
    by (simp add: format_2f_def Let_def str_nat_not_empty str_nat_digits zero_pad_digits
        is_digit_or_dot_def)
qed

lemma seconds_2f_shape:
  assumes "0 \<le> ms" and "seconds_2f ms = Inr s"
  shows "s \<noteq> [] \<and> list_all is_digit_or_dot s"
  using assms format_2f_shape
  by (auto simp: seconds_2f_def split: pyfloat.splits)

lemma seconds_2f_thousands:
  assumes "0 \<le> k" and "k < 2 ^ 53"
  shows "seconds_2f (k * 1000) = Inr (format_2f (of_int k))"
proof (cases "k = 0")
  case True
  then show ?thesis by (simp add: seconds_2f_def binary64_zero)
next
  case False
  with assms have "binary64 (of_int k) = Finite (of_int k)"
    by (intro binary64_of_int) simp_all
  moreover have "(of_int \<bar>k * 1000\<bar> :: rat) / 1000 = of_int k"
    using assms(1) by (simp add: abs_mult)
  ultimately show ?thesis
    using assms(1) by (simp add: seconds_2f_def mult_less_0_iff)
qed

lemma format_2f_3: "format_2f 3 = ''3.00''"
  by (simp add: format_2f_def round_half_even_def str_nat.simps zero_pad_def digit_char_def)

lemma format_2f_0: "format_2f 0 = ''0.00''"
  by (simp add: format_2f_def round_half_even_def str_nat.simps zero_pad_def digit_char_def)

lemma seconds_2f_3000: "seconds_2f 3000 = Inr ''3.00''"
  using seconds_2f_thousands [of 3] by (simp add: format_2f_3)

lemma seconds_2f_0: "seconds_2f 0 = Inr ''0.00''"
  using seconds_2f_thousands [of 0] by (simp add: format_2f_0)

lemma py_float_3: "py_float ''3.00'' = Inr (Finite 3)"
proof -
  have "binary64 (of_int 3) = Finite (of_int 3)"
    by (rule binary64_of_int) simp_all
  then show ?thesis
    by (simp add: py_float_def is_digit_def digits_value_def digit_value_def)
qed

section \<open>Properties of the Segment-Log Parser\<close>

lemma extract_example:
  "extract_segments EXAMPLE_LOG =
     [[''0001'', ''0.00'', ''3.00'', ''3.00'', ''STT_TT_D001_0001_0_to_3000.wav'', ''hello'']]"
  by code_simp

lemma split_example:
  "split_on CHR ''_'' ''STT_TT_D001_0001_0_to_3000.wav'' =
     [''STT'', ''TT'', ''D001'', ''0001'', ''0'', ''to'', ''3000.wav'']"
  by simp

lemma strip_hello: "strip ''hello'' = ''hello''"
  by (simp add: strip_def is_space_def)

text \<open>
  C3: parsing the one example block, followed by its separator, yields exactly one
  manifest row: the file name \<^verbatim>\<open>STT_TT_D001_0001_0_to_3000.wav\<close>, the department \<^verbatim>\<open>TT\<close>
  (the token at index 1), the URL that is the fixed base followed by the file name, the
  float 3.0 as duration, and the transcript \<^verbatim>\<open>hello\<close>.
\<close>

theorem example_block_row:
  "process_segments (extract_segments EXAMPLE_LOG) =
     Inr [\<lparr>file_name = ''STT_TT_D001_0001_0_to_3000.wav'',
           dept = ''TT'',
           audio_url = CLOUDFRONT_URL @ ''STT_TT_D001_0001_0_to_3000.wav'',
           audio_duration_in_seconds = Finite 3,
           transcript = ''hello''\<rparr>]"
  unfolding extract_example process_segments_def
  by (simp add: split_example py_index_def py_float_3 strip_hello construct_audio_url_def)

lemma split_on_not_empty: "split_on sep s \<noteq> []"
  by (induction s) (auto split: list.splits)

lemma length_split_on: "length (split_on sep s) = Suc (length (filter (\<lambda>c. c = sep) s))"
  by (induction s) (auto split: list.splits simp: split_on_not_empty)

lemma py_float_error: "py_float s = Inl e \<Longrightarrow> e = ValueError"
  by (auto simp: py_float_def Let_def split: list.splits if_splits)

text \<open>
  C7: for a matched block, the extraction of the department code raises \<^verbatim>\<open>IndexError\<close>
  exactly when the file name splits on the underscore into fewer than two tokens, that
  is, when it holds no underscore; then processing the block, alone or at the head of a
  list, raises it. With two tokens or more the extraction succeeds with the token at
  index 1, which is the department of the row whenever the block yields one.
\<close>

theorem dept_extraction:
  fixes filename :: string
  defines "tokens \<equiv> split_on CHR ''_'' filename"
  shows "(process_segment [segment_id, start_time, end_time, duration, filename, transcription]
            = Inl IndexError) = (length tokens < 2)
       \<and> (length tokens < 2 \<longrightarrow>
            process_segments
              ([segment_id, start_time, end_time, duration, filename, transcription] # segments)
              = Inl IndexError)
       \<and> (2 \<le> length tokens \<longrightarrow>
            py_index tokens 1 = Inr (tokens ! 1)
            \<and> (\<forall>row. process_segment
                        [segment_id, start_time, end_time, duration, filename, transcription]
                        = Inr row \<longrightarrow> dept row = tokens ! 1))
       \<and> (length tokens < 2) = (CHR ''_'' \<notin> set filename)"
proof -
  have tokens_len: "(length tokens < 2) = (CHR ''_'' \<notin> set filename)"
    unfolding tokens_def length_split_on by (auto simp: filter_empty_conv)
  have float_err: "py_float duration \<noteq> Inl IndexError"
    using py_float_error [of duration IndexError] by auto
  show ?thesis
    using float_err tokens_len
    by (auto simp: process_segments_def py_index_def tokens_def [symmetric]
             split: sum.splits)
qed

theorem dept_extraction_witness:
  "length (split_on CHR ''_'' ''segment.wav'') < 2
   \<and> process_segment [''0001'', ''0.00'', ''3.00'', ''3.00'', ''segment.wav'', ''hello'']
       = Inl IndexError
   \<and> process_segments [[''0001'', ''0.00'', ''3.00'', ''3.00'', ''segment.wav'', ''hello'']]
       = Inl IndexError
   \<and> 2 \<le> length (split_on CHR ''_'' ''STT_TT_D001_0001_0_to_3000.wav'')
   \<and> py_index (split_on CHR ''_'' ''STT_TT_D001_0001_0_to_3000.wav'') 1 = Inr ''TT''"
  using dept_extraction [of "''0001''" "''0.00''" "''3.00''" "''3.00''" "''segment.wav''"
      "''hello''" "[]"]
    dept_extraction [of "''0001''" "''0.00''" "''3.00''" "''3.00''"
      "''STT_TT_D001_0001_0_to_3000.wav''" "''hello''" "[]"]
  by (simp add: split_example)

text \<open>
  C10: two lists of matched tuples that agree, position by position, on the duration,
  the file name and the transcription give the same result of \<^verbatim>\<open>process_segments\<close>, the
  same rows or the same exception, whatever their sequence numbers, start times and end
  times are.
\<close>

lemma process_segments_loop_unused:
  assumes "list_all2 (\<lambda>x y. \<exists>id1 start1 end1 id2 start2 end2 duration filename transcription.
              x = [id1, start1, end1, duration, filename, transcription]
            \<and> y = [id2, start2, end2, duration, filename, transcription]) xs ys"
  shows "process_segments_loop data xs = process_segments_loop data ys"
  using assms
proof (induction xs ys arbitrary: data rule: list_all2_induct)
  case Nil
  show ?case by simp
next
  case (Cons x xs y ys)
  from Cons.hyps(1) have "process_segment x = process_segment y" by auto
  with Cons.IH show ?case by (simp split: sum.splits)
qed

text \<open>C10, for \<^verbatim>\<open>process_segments\<close> itself (the loop started on the empty list).\<close>

theorem unused_groups_noninterference:
  assumes "list_all2 (\<lambda>x y. \<exists>id1 start1 end1 id2 start2 end2 duration filename transcription.
              x = [id1, start1, end1, duration, filename, transcription]
            \<and> y = [id2, start2, end2, duration, filename, transcription]) xs ys"
  shows "process_segments xs = process_segments ys"
  unfolding process_segments_def using assms by (rule process_segments_loop_unused)

theorem unused_groups_noninterference_witness:
  "process_segments [[''0001'', ''0.00'', ''3.00'', ''3.00'', ''STT_TT_D001_0001_0_to_3000.wav'', ''hello'']]
   = process_segments [[''0742'', ''9.50'', ''12.50'', ''3.00'', ''STT_TT_D001_0001_0_to_3000.wav'', ''hello'']]"
  by (rule unused_groups_noninterference) simp

lemma collect_folders_concat:
  "collect_folders fs data audio_folders = data @ concat (map (folder_rows fs) audio_folders)"
  by (induction audio_folders arbitrary: data) (auto simp: folder_rows_def split: sum.splits)

lemma missing_log_not_found:
  assumes "listdir fs folder = Inr names"
    and "filter (\<lambda>f. startswith f ''segments_log'') names = []"
  shows "process_folder fs folder = Inl FileNotFoundError"
  using assms by (simp add: process_folder_def get_log_file_def)

text \<open>
  C5: a folder that lists no file named \<^verbatim>\<open>segments_log...\<close> fails with
  \<^verbatim>\<open>FileNotFoundError\<close>; and a folder whose processing fails, for this or any other
  reason, adds no row: the collected rows and both manifests are those of the same run
  over the list without that folder.
\<close>

theorem folder_fault_isolation:
  "(listdir fs folder = Inr names \<and> filter (\<lambda>f. startswith f ''segments_log'') names = []
      \<longrightarrow> process_folder fs folder = Inl FileNotFoundError)
   \<and> (process_folder fs folder = Inl e \<longrightarrow>
        collect_folders fs data (before @ folder # after) = collect_folders fs data (before @ after)
      \<and> process_audio_folders fs (before @ folder # after)
          = process_audio_folders fs (before @ after)
      \<and> process_audio_folders_sorted fs (before @ folder # after)
          = process_audio_folders_sorted fs (before @ after))"
proof -
  have drop: "collect_folders fs d (before @ folder # after) = collect_folders fs d (before @ after)"
    if "process_folder fs folder = Inl e" for d
    using that by (simp add: collect_folders_concat folder_rows_def)
  show ?thesis
    using missing_log_not_found [of fs folder names] drop
    by (auto simp: process_audio_folders_def process_audio_folders_sorted_def)
qed

lemma example_row_a:
  "process_folder EXAMPLE_FS ''data/a'' =
     Inr [\<lparr>file_name = ''STT_TT_D001_0001_0_to_3000.wav'',
           dept = ''TT'',
           audio_url = CLOUDFRONT_URL @ ''STT_TT_D001_0001_0_to_3000.wav'',
           audio_duration_in_seconds = Finite 3,
           transcript = ''hello''\<rparr>]"
  by (simp add: process_folder_def get_log_file_def read_log_file_def EXAMPLE_FS_def
      startswith_def path_join_def example_block_row)

lemma example_row_b: "process_folder EXAMPLE_FS ''data/b'' = Inl FileNotFoundError"
  by (simp add: process_folder_def get_log_file_def EXAMPLE_FS_def startswith_def)

theorem folder_fault_isolation_witness:
  "listdir EXAMPLE_FS ''data/b'' = Inr [''notes.txt'']
   \<and> filter (\<lambda>f. startswith f ''segments_log'') [''notes.txt''] = []
   \<and> process_folder EXAMPLE_FS ''data/b'' = Inl FileNotFoundError
   \<and> process_audio_folders EXAMPLE_FS [''data/b'', ''data/a'']
       = process_audio_folders EXAMPLE_FS [''data/a'']
   \<and> data_rows (process_audio_folders EXAMPLE_FS [''data/b'', ''data/a''])
       = [\<lparr>file_name = ''STT_TT_D001_0001_0_to_3000.wav'',
           dept = ''TT'',
           audio_url = CLOUDFRONT_URL @ ''STT_TT_D001_0001_0_to_3000.wav'',
           audio_duration_in_seconds = Finite 3,
           transcript = ''hello''\<rparr>]"
  using folder_fault_isolation [of EXAMPLE_FS "''data/b''" "[''notes.txt'']" FileNotFoundError
      "[]" "[]" "[''data/a'']"]
  by (simp add: example_row_a example_row_b process_audio_folders_def save_to_csv_def
      to_csv_def) (simp add: EXAMPLE_FS_def startswith_def)

text \<open>
  C8: for every file system and every list of folders, both variants write a manifest
  whose first line is the five column names joined by commas, with nothing before
  \<^verbatim>\<open>file_name\<close>; when every folder fails or yields no block, the manifest is this
  header alone.
\<close>

theorem manifest_header_unconditional:
  "header_line (process_audio_folders fs audio_folders)
     = ''file_name,dept,audio_url,audio_duration_in_seconds,transcript''
   \<and> header_line (process_audio_folders_sorted fs audio_folders)
     = ''file_name,dept,audio_url,audio_duration_in_seconds,transcript''
   \<and> (list_all (\<lambda>folder. folder_rows fs folder = []) audio_folders \<longrightarrow>
        process_audio_folders fs audio_folders
          = \<lparr>header_line = ''file_name,dept,audio_url,audio_duration_in_seconds,transcript'',
             data_rows = []\<rparr>
      \<and> process_audio_folders_sorted fs audio_folders
          = \<lparr>header_line = ''file_name,dept,audio_url,audio_duration_in_seconds,transcript'',
             data_rows = []\<rparr>)"
proof -
  have header: "str_join '','' MANIFEST_COLUMNS
      = ''file_name,dept,audio_url,audio_duration_in_seconds,transcript''"
    by (simp add: MANIFEST_COLUMNS_def)
  have empty: "collect_folders fs [] audio_folders = []"
    if "list_all (\<lambda>folder. folder_rows fs folder = []) audio_folders"
    using that by (simp add: collect_folders_concat list_all_iff)
  show ?thesis
    using empty
    by (auto simp: process_audio_folders_def process_audio_folders_sorted_def save_to_csv_def
        save_to_csv_sorted_def to_csv_def sort_values_by_file_name_def header)
qed

theorem manifest_header_unconditional_witness:
  "list_all (\<lambda>folder. folder_rows EXAMPLE_FS folder = []) [''data/b'', ''data/missing'']
   \<and> process_audio_folders EXAMPLE_FS [''data/b'', ''data/missing'']
       = \<lparr>header_line = ''file_name,dept,audio_url,audio_duration_in_seconds,transcript'',
          data_rows = []\<rparr>
   \<and> header_line (process_audio_folders EXAMPLE_FS [''data/a''])
       = ''file_name,dept,audio_url,audio_duration_in_seconds,transcript''"
proof -
  have "process_folder EXAMPLE_FS ''data/missing'' = Inl FileNotFoundError"
    by (simp add: process_folder_def get_log_file_def EXAMPLE_FS_def)
  then have failing:
    "list_all (\<lambda>folder. folder_rows EXAMPLE_FS folder = []) [''data/b'', ''data/missing'']"
    by (simp add: folder_rows_def example_row_b)
  with manifest_header_unconditional [of EXAMPLE_FS "[''data/b'', ''data/missing'']"]
    manifest_header_unconditional [of EXAMPLE_FS "[''data/a'']"]
  show ?thesis by simp
qed

lemma data_rows_unsorted:
  "data_rows (process_audio_folders fs audio_folders)
     = concat (map (folder_rows fs) audio_folders)"
  by (simp add: process_audio_folders_def save_to_csv_def to_csv_def collect_folders_concat)

lemma data_rows_sorted:
  "data_rows (process_audio_folders_sorted fs audio_folders)
     = sort_key file_name (concat (map (folder_rows fs) audio_folders))"
  by (simp add: process_audio_folders_sorted_def save_to_csv_sorted_def to_csv_def
      sort_values_by_file_name_def collect_folders_concat)

lemma mset_concat_map:
  assumes "mset xs = mset ys"
  shows "mset (concat (map f xs)) = mset (concat (map f ys))"
proof -
  have "mset (concat (map f zs)) = sum_mset (image_mset (\<lambda>x. mset (f x)) (mset zs))" for zs
    by (induction zs) simp_all
  with assms show ?thesis by simp
qed

text \<open>
  C4: the variant that does not sort writes the rows of the folders one folder after the
  other, in the order of the list (and, being a function of the files and the list, the
  same rows in the same order on every run over unchanged folders). The sorting variant
  writes the same rows ascending by file name; reordering the list of folders leaves the
  column of file names it writes unchanged.
\<close>

theorem manifest_order:
  "data_rows (process_audio_folders fs audio_folders)
     = concat (map (folder_rows fs) audio_folders)
   \<and> sorted (map file_name (data_rows (process_audio_folders_sorted fs audio_folders)))
   \<and> mset (data_rows (process_audio_folders_sorted fs audio_folders))
     = mset (data_rows (process_audio_folders fs audio_folders))
   \<and> (mset reordered = mset audio_folders \<longrightarrow>
        map file_name (data_rows (process_audio_folders_sorted fs reordered))
          = map file_name (data_rows (process_audio_folders_sorted fs audio_folders)))"
proof -
  have same_names:
    "map file_name (data_rows (process_audio_folders_sorted fs reordered))
       = map file_name (data_rows (process_audio_folders_sorted fs audio_folders))"
    if perm: "mset reordered = mset audio_folders"
  proof -
    let ?a = "map file_name (data_rows (process_audio_folders_sorted fs reordered))"
    let ?b = "map file_name (data_rows (process_audio_folders_sorted fs audio_folders))"
    have "mset ?a = mset ?b"
      unfolding data_rows_sorted using mset_concat_map [OF perm, of "folder_rows fs"]
      by (metis mset_map mset_sort)
    moreover have "sorted ?a" and "sorted ?b"
      by (simp_all add: data_rows_sorted)
    ultimately show ?thesis
      by (metis properties_for_sort sorted_sort_id)
  qed
  show ?thesis
    using same_names by (simp add: data_rows_unsorted data_rows_sorted)
qed

lemma extract_example_c:
  "extract_segments EXAMPLE_LOG_C =
     [[''0007'', ''2.00'', ''3.00'', ''1.00'', ''STT_AB_D003_0007_2000_to_3000.wav'',
       '' good day '']]"
  by code_simp

lemma example_row_c:
  "process_folder EXAMPLE_FS ''data/c'' =
     Inr [\<lparr>file_name = ''STT_AB_D003_0007_2000_to_3000.wav'',
           dept = ''AB'',
           audio_url = CLOUDFRONT_URL @ ''STT_AB_D003_0007_2000_to_3000.wav'',
           audio_duration_in_seconds = Finite 1,
           transcript = ''good day''\<rparr>]"
proof -
  have "binary64 (of_int 1) = Finite (of_int 1)"
    by (rule binary64_of_int) simp_all
  then have float: "py_float ''1.00'' = Inr (Finite 1)"
    by (simp add: py_float_def is_digit_def digits_value_def digit_value_def)
  have strip: "strip '' good day '' = ''good day''"
    by (simp add: strip_def is_space_def)
  show ?thesis
    by (simp add: process_folder_def get_log_file_def read_log_file_def EXAMPLE_FS_def
        startswith_def path_join_def extract_example_c process_segments_def py_index_def
        float strip construct_audio_url_def)
qed

theorem manifest_order_witness:
  "mset [''data/c'', ''data/b'', ''data/a''] = mset [''data/a'', ''data/b'', ''data/c'']
   \<and> map file_name (data_rows (process_audio_folders EXAMPLE_FS [''data/a'', ''data/b'', ''data/c'']))
       = [''STT_TT_D001_0001_0_to_3000.wav'', ''STT_AB_D003_0007_2000_to_3000.wav'']
   \<and> map file_name (data_rows (process_audio_folders_sorted EXAMPLE_FS [''data/a'', ''data/b'', ''data/c'']))
       = [''STT_AB_D003_0007_2000_to_3000.wav'', ''STT_TT_D001_0001_0_to_3000.wav'']
   \<and> map file_name (data_rows (process_audio_folders_sorted EXAMPLE_FS [''data/c'', ''data/b'', ''data/a'']))
       = [''STT_AB_D003_0007_2000_to_3000.wav'', ''STT_TT_D001_0001_0_to_3000.wav'']"
proof -
  have perm: "mset [''data/c'', ''data/b'', ''data/a''] = mset [''data/a'', ''data/b'', ''data/c'']"
    by simp
  have rows: "concat (map (folder_rows EXAMPLE_FS) [''data/a'', ''data/b'', ''data/c''])
      = [\<lparr>file_name = ''STT_TT_D001_0001_0_to_3000.wav'',
           dept = ''TT'',
           audio_url = CLOUDFRONT_URL @ ''STT_TT_D001_0001_0_to_3000.wav'',
           audio_duration_in_seconds = Finite 3,
           transcript = ''hello''\<rparr>,
         \<lparr>file_name = ''STT_AB_D003_0007_2000_to_3000.wav'',
           dept = ''AB'',
           audio_url = CLOUDFRONT_URL @ ''STT_AB_D003_0007_2000_to_3000.wav'',
           audio_duration_in_seconds = Finite 1,
           transcript = ''good day''\<rparr>]"
    by (simp add: folder_rows_def example_row_a example_row_b example_row_c)
  have less: "''STT_AB_D003_0007_2000_to_3000.wav'' \<le> ''STT_TT_D001_0001_0_to_3000.wav''"
    by simp
  from manifest_order [of EXAMPLE_FS "[''data/a'', ''data/b'', ''data/c'']"
      "[''data/c'', ''data/b'', ''data/a'']"] perm
  have unsorted: "data_rows (process_audio_folders EXAMPLE_FS [''data/a'', ''data/b'', ''data/c''])
      = concat (map (folder_rows EXAMPLE_FS) [''data/a'', ''data/b'', ''data/c''])"
    and same: "map file_name (data_rows (process_audio_folders_sorted EXAMPLE_FS [''data/c'', ''data/b'', ''data/a'']))
      = map file_name (data_rows (process_audio_folders_sorted EXAMPLE_FS [''data/a'', ''data/b'', ''data/c'']))"
    by blast+
  have sorted_rows: "map file_name (data_rows (process_audio_folders_sorted EXAMPLE_FS [''data/a'', ''data/b'', ''data/c'']))
      = [''STT_AB_D003_0007_2000_to_3000.wav'', ''STT_TT_D001_0001_0_to_3000.wav'']"
    unfolding data_rows_sorted rows using less by simp
  show ?thesis
    unfolding same sorted_rows unsorted rows using perm by simp
qed

section \<open>Properties of the Audio Splitter\<close>





































end
